theory Spec2Isabelle
  imports Main "HOL-Library.Sublist"
begin

section \<open>Strings and escaping\<close>

text \<open>
  Python strings are modelled as \<^typ>\<open>string\<close>. The characters the exporter treats
  specially (\<open>&\<close>, \<open><\<close>, \<open>>\<close>, \<open>/\<close>, \<open>:\<close>, \<open>-\<close>, the two quotes) are ASCII, so reading a
  string as its UTF-8 bytes does not change what is replaced.
\<close>

abbreviation (input) NL :: string where
  "NL \<equiv> [CHR 0x0A]"

abbreviation (input) DQ :: string where
  "DQ \<equiv> [CHR 0x22]"

text \<open>
  \<^verbatim>\<open>str.replace(old, new)\<close>: the occurrences of \<open>old\<close> are replaced from left to right
  and do not overlap; an empty \<open>old\<close> matches before every character and at the end.
\<close>

function str_replace :: "string \<Rightarrow> string \<Rightarrow> string \<Rightarrow> string" where
  "str_replace old new [] = (if old = [] then new else [])"
| "str_replace old new (c # cs) =
     (if old = [] then new @ c # str_replace old new cs
      else if prefix old (c # cs)
        then new @ str_replace old new (drop (length old) (c # cs))
        else c # str_replace old new cs)"
  by pat_completeness auto
termination
  by (relation "measure (\<lambda>(old, new, s). length s)") auto

text \<open>\<^verbatim>\<open>xml.sax.saxutils.escape(data)\<close> with no extra entities: the ampersand first.\<close>

definition xml_escape :: "string \<Rightarrow> string" where
  "xml_escape data =
     str_replace ''<'' ''&lt;'' (str_replace ''>'' ''&gt;'' (str_replace ''&'' ''&amp;'' data))"

text \<open>\<^verbatim>\<open>xml.sax.saxutils.unescape(data)\<close> with no extra entities: the ampersand last.\<close>

definition xml_unescape :: "string \<Rightarrow> string" where
  "xml_unescape data =
     str_replace ''&amp;'' ''&'' (str_replace ''&gt;'' ''>'' (str_replace ''&lt;'' ''<'' data))"

text \<open>\<^verbatim>\<open>escape(string)\<close> of the exporter: \<open>None\<close> is passed through.\<close>

definition escape :: "string option \<Rightarrow> string option" where
  "escape string = (case string of None \<Rightarrow> None | Some s \<Rightarrow> Some (xml_escape s))"

text \<open>What \<^verbatim>\<open>"{}".format(x)\<close> puts in place of the braces for a string or \<open>None\<close>.\<close>

definition py_str :: "string option \<Rightarrow> string" where
  "py_str v = (case v of None \<Rightarrow> ''None'' | Some s \<Rightarrow> s)"

text \<open>Truth value of an optional string: \<open>None\<close> and the empty string are false.\<close>

definition truthy :: "string option \<Rightarrow> bool" where
  "truthy v = (case v of None \<Rightarrow> False | Some s \<Rightarrow> s \<noteq> [])"

section \<open>Writing lines\<close>

text \<open>
  A text stream is modelled by the text written to it so far. \<^verbatim>\<open>write\<close> of the
  source (\<open>write_line\<close> here, \<open>write\<close> being a word of the proof language) appends the
  indentation and the line when its condition holds. The source formats the line
  with \<^verbatim>\<open>string.format(*objects)\<close>; every template it uses holds plain \<open>{}\<close> fields
  only, so the callers below build the formatted text by concatenation, with
  \<^const>\<open>py_str\<close> where the object may be \<open>None\<close>. \<open>indentation\<close> is the text of
  \<^verbatim>\<open>"  " * indent\<close>.
\<close>

definition indentation :: "nat \<Rightarrow> string" where
  "indentation indent = concat (replicate indent ''  '')"

definition write_line :: "string \<Rightarrow> nat \<Rightarrow> string \<Rightarrow> bool \<Rightarrow> string" where
  "write_line out indent string condition =
     (if condition then out @ indentation indent @ string else out)"

section \<open>Type tables\<close>

definition BIBTYPE :: "(string \<times> string) list" where
  "BIBTYPE = []"

definition ZTYPE :: "(string \<times> string) list" where
  "ZTYPE =
    [(''paper-conference'', ''conferencePaper''),
     (''article-journal'', ''journalArticle''),
     (''report'', ''report''),
     (''book'', ''book''),
     (''chapter'', ''bookSection''),
     (''journal'', ''journal''),
     (''patent'', ''patent''),
     (''webpage'', ''webpage''),
     (''thesis'', ''thesis''),
     (''entry'', ''document''),
     (''bill'', ''hearing'')]"

section \<open>Paths\<close>

text \<open>The characters of \<^verbatim>\<open>RE_FILECHARS\<close>: slash, colon, hyphen and the two quotes.\<close>

definition RE_FILECHARS :: "char list" where
  "RE_FILECHARS = [CHR ''/'', CHR '':'', CHR ''-'', CHR 0x22, CHR 0x27]"

definition filechars_sub :: "string \<Rightarrow> string" where
  "filechars_sub s = map (\<lambda>c. if c \<in> set RE_FILECHARS then CHR ''_'' else c) s"

text \<open>\<^verbatim>\<open>os.path\<close> is taken to be \<^verbatim>\<open>posixpath\<close>.\<close>

definition op_basename :: "string \<Rightarrow> string" where
  "op_basename p = rev (takeWhile (\<lambda>c. c \<noteq> CHR ''/'') (rev p))"

definition op_join :: "string \<Rightarrow> string \<Rightarrow> string" where
  "op_join a b =
     (if prefix ''/'' b then b
      else if a = [] \<or> suffix ''/'' a then a @ b
      else a @ ''/'' @ b)"

section \<open>Data model\<close>

text \<open>
  Exceptions, by class. \<open>IOError\<close> stands for \<^verbatim>\<open>OSError\<close> and its subclasses,
  \<open>OtherError\<close> for any further subclass of \<^verbatim>\<open>Exception\<close>.
\<close>

datatype exn = PdfReadError | IOError | KeyError string | TypeError | OtherError string

text \<open>Log records: the debug line of a conversion (destination, source) and the error line.\<close>

datatype log_record = LogDebug string string | LogError exn

text \<open>
  Regular files on disk, by path, with their contents. The RDF document itself is kept
  as a stream of its own. \<open>embedded\<close> lists the destinations \<^verbatim>\<open>embed_annotations\<close> was
  called with, in order.
\<close>

type_synonym filesystem = "string \<rightharpoonup> string"

record world =
  fs :: filesystem
  log :: "log_record list"
  embedded :: "string list"

record exporter =
  embed_container :: bool
  annotate :: bool
  ex_path :: string
  overwrite :: bool

record author =
  a_firstname :: "string option"
  a_surname :: "string option"

record paper_note =
  n_uuid :: string
  n_title :: "string option"
  n_html :: "string option"

text \<open>
  A file of the manager. Its class is not part of the exporter: \<open>f_exists\<close> and
  \<open>f_has_externalannotations\<close> are what the two methods return, and
  \<open>f_embed_annotations\<close> is the method itself: called with the destination on a
  disk, it gives the exception it raises, if any, and the disk it leaves.
\<close>

record attachment =
  f_uuid :: string
  f_path :: string
  f_title :: "string option"
  f_mimetype :: "string option"
  f_exists :: bool
  f_has_externalannotations :: bool
  f_embed_annotations :: "string \<Rightarrow> filesystem \<Rightarrow> exn option \<times> filesystem"

text \<open>
  A paper. \<open>p_abstract\<close> is \<open>None\<close> when the object has no such attribute;
  \<open>p_date\<close> is what \<^verbatim>\<open>paper.date()\<close> returns; \<open>p_creationdate\<close>, when present,
  is the timestamp as \<^verbatim>\<open>{:%Y-%m-%d %H:%M:%S}\<close> renders it.
\<close>

datatype paper = Paper
  (p_uuid: string)
  (p_type: string)
  (p_title: "string option")
  (p_abstract: "string option option")
  (p_volume: "string option")
  (p_number: "string option")
  (p_doi: "string option")
  (p_pages: "string option")
  (p_keywords: "string list")
  (p_read: bool)
  (p_container: "paper option")
  (p_date: string)
  (p_creationdate: "string option")
  (p_authors: "author list")
  (p_notes: "paper_note list")
  (p_files: "attachment list")

datatype collection = Collection
  (c_uuid: string)
  (c_name: "string option")
  (c_children: "collection list")
  (c_publications: "paper list")

section \<open>The exporter\<close>

definition new_exporter :: exporter where
  "new_exporter = \<lparr>embed_container = True, annotate = False, ex_path = [], overwrite = False\<rparr>"

subsection \<open>Authors\<close>

definition output_author :: "author \<Rightarrow> string \<Rightarrow> nat \<Rightarrow> string" where
  "output_author author f indent =
     (let f = write_line f indent (''<foaf:Person>'' @ NL) True;
          f = write_line f (indent + 1)
                (''<foaf:surname>'' @ py_str (a_surname author) @ ''</foaf:surname>'' @ NL) True;
          f = write_line f (indent + 1)
                (''<foaf:givenname>'' @ py_str (a_firstname author) @ ''</foaf:givenname>'' @ NL) True
      in write_line f indent (''</foaf:Person>'' @ NL) True)"

subsection \<open>Files\<close>

text \<open>Lines 241 and 242 of \<^verbatim>\<open>output_file\<close>: where the annotated copy goes.\<close>

definition destination :: "exporter \<Rightarrow> attachment \<Rightarrow> string" where
  "destination self f =
     (let uuidpath = filechars_sub (f_uuid f)
      in op_join (ex_path self) (uuidpath @ ''-'' @ op_basename (f_path f)))"

text \<open>
  Lines 237 to 260 of \<^verbatim>\<open>output_file\<close>: the path the attachment refers to, or the
  exception that leaves the function.
\<close>

definition resolve_path :: "exporter \<Rightarrow> attachment \<Rightarrow> world \<Rightarrow> (exn + string) \<times> world" where
  "resolve_path self f w =
     (if annotate self \<and> f_has_externalannotations f then
        let path = destination self f;
            w = w\<lparr>log := log w @ [LogDebug path (f_path f)]\<rparr>;
            (raised, w) =
              (if fs w path = None \<or> fs w path = Some []
               then case f_embed_annotations f path (fs w) of
                      (r, disk) \<Rightarrow> (r, w\<lparr>fs := disk, embedded := embedded w @ [path]\<rparr>)
               else (None, w))
        in case raised of
             None \<Rightarrow> (Inr path, w)
           | Some e \<Rightarrow>
               let w = w\<lparr>fs := (fs w)(path := None)\<rparr>
               in if e = PdfReadError \<or> e = IOError
                  then (Inr (f_path f), w\<lparr>log := log w @ [LogError e]\<rparr>)
                  else (Inl e, w)
      else (Inr (f_path f), w))"

definition output_file ::
  "exporter \<Rightarrow> string \<Rightarrow> attachment \<Rightarrow> nat \<Rightarrow> world \<Rightarrow> (exn + bool) \<times> string \<times> world" where
  "output_file self out f indent w =
     (if \<not> f_exists f then (Inr False, out, w)
      else
        let out = write_line out indent
                    (''<z:Attachment rdf:about='' @ DQ @ ''#'' @ f_uuid f @ DQ @ ''>'' @ NL) True;
            out = write_line out (indent + 1) (''<z:itemType>attachment</z:itemType>'' @ NL) True;
            out = write_line out (indent + 1)
                    (''<dc:title>'' @ py_str (escape (f_title f)) @ ''</dc:title>'' @ NL)
                    (truthy (f_title f));
            out = write_line out (indent + 1)
                    (''<link:type>'' @ py_str (f_mimetype f) @ ''</link:type>'' @ NL)
                    (truthy (f_mimetype f))
        in case resolve_path self f w of
             (Inl e, w) \<Rightarrow> (Inl e, out, w)
           | (Inr path, w) \<Rightarrow>
               let out = write_line out (indent + 1)
                           (''<rdf:resource rdf:resource='' @ DQ @ py_str (escape (Some path))
                              @ DQ @ ''/>'' @ NL) True;
                   out = write_line out indent (''</z:Attachment>'' @ NL) True
               in (Inr True, out, w))"

text \<open>The loop of lines 97 to 100: the identifiers of the files that were written.\<close>

fun output_files ::
  "exporter \<Rightarrow> nat \<Rightarrow> attachment list \<Rightarrow> string list \<Rightarrow> string \<Rightarrow> world
     \<Rightarrow> (exn + string list) \<times> string \<times> world" where
  "output_files self indent [] attachments appendout w = (Inr attachments, appendout, w)"
| "output_files self indent (file # rest) attachments appendout w =
     (case output_file self appendout file indent w of
        (Inl e, appendout, w) \<Rightarrow> (Inl e, appendout, w)
      | (Inr written, appendout, w) \<Rightarrow>
          output_files self indent rest
            (if written then attachments @ [f_uuid file] else attachments) appendout w)"

subsection \<open>Papers\<close>

text \<open>Lines 104 to 110 of \<^verbatim>\<open>output_paper\<close>: the authors, when there are any.\<close>

definition output_paper_authors :: "string \<Rightarrow> nat \<Rightarrow> author list \<Rightarrow> string" where
  "output_paper_authors f indent authors =
     (if authors \<noteq> [] then
        let f = write_line f (indent + 1) (''<bib:authors><rdf:Seq>'' @ NL) True;
            f = foldl (\<lambda>f author.
                  let f = write_line f (indent + 2) (''<rdf:li>'' @ NL) True;
                      f = output_author author f (indent + 3)
                  in write_line f (indent + 2) (''</rdf:li>'' @ NL) True) f authors
        in write_line f (indent + 1) (''</rdf:Seq></bib:authors>'' @ NL) True
      else f)"

text \<open>Lines 113 to 160: title, abstract, volume and number, DOI, pages, links, subjects.\<close>

definition output_paper_fields :: "string \<Rightarrow> nat \<Rightarrow> paper \<Rightarrow> string list \<Rightarrow> string" where
  "output_paper_fields f indent paper attachments =
     (let f = write_line f (indent + 1)
                (''<dc:title>'' @ py_str (escape (p_title paper)) @ ''</dc:title>'' @ NL) True;
          f = (case p_abstract paper of
                 None \<Rightarrow> f
               | Some abstract \<Rightarrow>
                   write_line f (indent + 1)
                     (''<dcterms:abstract>'' @ py_str (escape abstract) @ ''</dcterms:abstract>'' @ NL)
                     (truthy abstract));
          f = (if p_volume paper \<noteq> None
               then write_line f (indent + 1)
                      (''<prism:volume>'' @ py_str (escape (p_volume paper)) @ ''</prism:volume>'' @ NL)
                      True
               else f);
          f = (if p_volume paper \<noteq> None
               then write_line f (indent + 1)
                      (''<prism:number>'' @ py_str (escape (p_number paper)) @ ''</prism:number>'' @ NL)
                      True
               else f);
          f = (if p_doi paper \<noteq> None
               then write_line f (indent + 1)
                      (''<dc:identifier>DOI '' @ py_str (escape (p_doi paper)) @ ''</dc:identifier>'' @ NL)
                      True
               else f);
          f = (if p_pages paper \<noteq> None
               then write_line f (indent + 1)
                      (''<bib:pages>'' @ py_str (escape (p_pages paper)) @ ''</bib:pages>'' @ NL) True
               else f);
          f = foldl (\<lambda>f attachment.
                write_line f (indent + 1)
                  (''<link:link rdf:resource='' @ DQ @ ''#'' @ py_str (escape (Some attachment))
                     @ DQ @ ''/>'' @ NL) True) f attachments;
          f = foldl (\<lambda>f keyword.
                write_line f (indent + 1)
                  (''<dc:subject>'' @ py_str (escape (Some keyword)) @ ''</dc:subject>'') True)
                f (p_keywords paper)
      in if p_read paper
         then write_line f (indent + 1) ''<dc:subject>#read</dc:subject>'' True
         else f)"

text \<open>Lines 175 to 195: the dates, the links to the notes and the closing tag.\<close>

definition output_paper_trailer :: "string \<Rightarrow> nat \<Rightarrow> paper \<Rightarrow> string \<Rightarrow> string" where
  "output_paper_trailer f indent paper gtype =
     (let date = p_date paper;
          f = write_line f (indent + 1) (''<dc:date>'' @ date @ ''</dc:date>'' @ NL)
                (length date > 0);
          f = (case p_creationdate paper of
                 None \<Rightarrow> f
               | Some stamp \<Rightarrow>
                   write_line f (indent + 1)
                     (''<dcterms:dateSubmitted>'' @ stamp @ ''</dcterms:dateSubmitted>'' @ NL) True);
          f = foldl (\<lambda>f note.
                write_line f (indent + 1)
                  ('' <dcterms:isReferencedBy rdf:resource='' @ DQ @ ''#'' @ n_uuid note
                     @ DQ @ ''/>'' @ NL) True) f (p_notes paper)
      in write_line f indent (''</bib:'' @ gtype @ ''>'' @ NL @ NL) True)"

text \<open>
  Lines 197 to 200: the memos. With no object to format, \<^verbatim>\<open>write\<close> hands the escaped body
  to the stream as it is; the stream refuses \<open>None\<close> with a \<^verbatim>\<open>TypeError\<close>, after the
  indentation has been written.
\<close>

fun output_paper_memos :: "string \<Rightarrow> nat \<Rightarrow> paper_note list \<Rightarrow> (exn + unit) \<times> string" where
  "output_paper_memos f indent [] = (Inr (), f)"
| "output_paper_memos f indent (note # rest) =
     (let f = write_line f indent
                (''<bib:Memo rdf:about='' @ DQ @ ''#'' @ n_uuid note @ DQ @ ''>'') True
      in case escape (n_html note) of
           None \<Rightarrow> (Inl TypeError, write_line f (indent + 1) [] True)
         | Some body \<Rightarrow>
             let f = write_line f (indent + 1) body True;
                 f = write_line f indent ''</bib:Memo>'' True
             in output_paper_memos f indent rest)"

lemma container_smaller: "p_container paper = Some container \<Longrightarrow> size container < size paper"
  by (cases paper) simp

text \<open>
  \<^verbatim>\<open>output_paper\<close>. The result holds the exception that left the function, if any, the
  text of the stream \<open>f\<close> at that moment, and the world.
\<close>

function output_paper ::
  "exporter \<Rightarrow> string \<Rightarrow> paper \<Rightarrow> nat \<Rightarrow> world \<Rightarrow> (exn + unit) \<times> string \<times> world" where
  "output_paper self f paper indent w =
     (let gtype = (case map_of BIBTYPE (p_type paper) of None \<Rightarrow> ''Article'' | Some t \<Rightarrow> t)
      in case output_files self indent (p_files paper) [] [] w of
           (Inl e, appendout, w) \<Rightarrow> (Inl e, f, w)
         | (Inr attachments, appendout, w) \<Rightarrow>
             (let f = write_line f indent
                       (''<bib:'' @ gtype @ '' rdf:about='' @ DQ @ ''#'' @ p_uuid paper @ DQ @ ''>'' @ NL)
                       True;
                 f = output_paper_authors f indent (p_authors paper)
              in (case map_of ZTYPE (p_type paper) of
                  None \<Rightarrow> (Inl (KeyError (p_type paper)), f, w)
                | Some ztype \<Rightarrow>
                    (let f = f @ indentation indent @ ''  <z:itemType>'' @ ztype
                              @ ''</z:itemType>'' @ NL;
                        f = output_paper_fields f indent paper attachments
                     in (case (case p_container paper of
                               None \<Rightarrow> (Inr (), f, w)
                             | Some container \<Rightarrow>
                                 if embed_container self then
                                   (case output_paper self
                                          (write_line f (indent + 1) (''<dcterms:isPartOf>'' @ NL) True)
                                          container (indent + 2) w of
                                     (Inl e, f, w) \<Rightarrow> (Inl e, f, w)
                                   | (Inr u, f, w) \<Rightarrow>
                                       (Inr (),
                                        write_line f (indent + 1) (''</dcterms:isPartOf>'' @ NL) True, w))
                                 else
                                   (Inr (),
                                    write_line f (indent + 1)
                                      (''<dcterms:isPartOf rdf:resource='' @ DQ @ p_uuid container
                                         @ DQ @ ''/>'' @ NL) True, w)) of
                         (Inl e, f, w) \<Rightarrow> (Inl e, f, w)
                       | (Inr u, f, w) \<Rightarrow>
                           (case output_paper_memos (output_paper_trailer f indent paper gtype)
                                  indent (p_notes paper) of
                              (Inl e, f) \<Rightarrow> (Inl e, f, w)
                            | (Inr u, f) \<Rightarrow> (Inr (), f @ appendout, w)))))))"
  by pat_completeness auto
termination
  by (relation "measure (\<lambda>(self, f, paper, indent, w). size paper)")
    (auto simp: container_smaller)

declare output_paper.simps [simp del]

subsection \<open>Collections\<close>

definition output_collection :: "collection \<Rightarrow> string \<Rightarrow> nat \<Rightarrow> string" where
  "output_collection collection f indent =
     (let f = write_line f indent
                (''<z:Collection rdf:about='' @ DQ @ ''#'' @ c_uuid collection @ DQ @ ''>'' @ NL) True;
          f = write_line f (indent + 1)
                (''<dc:title>'' @ py_str (escape (c_name collection)) @ ''</dc:title>'' @ NL) True;
          f = foldl (\<lambda>f c.
                write_line f (indent + 1)
                  (''<dcterms:hasPart rdf:resource='' @ DQ @ ''#'' @ c_uuid c @ DQ @ ''/>'' @ NL) True)
                f (c_children collection);
          f = foldl (\<lambda>f p.
                write_line f (indent + 1)
                  (''<dcterms:hasPart rdf:resource='' @ DQ @ ''#'' @ p_uuid p @ DQ @ ''/>'' @ NL) True)
                f (c_publications collection)
      in write_line f indent (''</z:Collection>'' @ NL @ NL) True)"

subsection \<open>The document\<close>

definition xmlns :: "string \<Rightarrow> string \<Rightarrow> string" where
  "xmlns name uri = ''         xmlns:'' @ name @ ''='' @ DQ @ uri @ DQ"

definition rdf_header :: string where
  "rdf_header =
     ''<rdf:RDF'' @ NL
     @ xmlns ''rdf'' ''http://www.w3.org/1999/02/22-rdf-syntax-ns#'' @ NL
     @ xmlns ''z'' ''http://www.zotero.org/namespaces/export#'' @ NL
     @ xmlns ''dcterms'' ''http://purl.org/dc/terms/'' @ NL
     @ xmlns ''bib'' ''http://purl.org/net/biblio#'' @ NL
     @ xmlns ''foaf'' ''http://xmlns.com/foaf/0.1/'' @ NL
     @ xmlns ''link'' ''http://purl.org/rss/1.0/modules/link/'' @ NL
     @ xmlns ''dc'' ''http://purl.org/dc/elements/1.1/'' @ NL
     @ xmlns ''vcard'' ''http://nwalsh.com/rdf/vCard#'' @ NL
     @ xmlns ''prism'' ''http://prismstandard.org/namespaces/1.2/basic/'' @ ''>'' @ NL @ NL"

text \<open>The loop of lines 83 and 84: it ends at the first paper that raises.\<close>

fun output_papers ::
  "exporter \<Rightarrow> string \<Rightarrow> paper list \<Rightarrow> world \<Rightarrow> (exn + unit) \<times> string \<times> world" where
  "output_papers self out [] w = (Inr (), out, w)"
| "output_papers self out (p # publications) w =
     (case output_paper self out p 1 w of
        (Inl e, out, w) \<Rightarrow> (Inl e, out, w)
      | (Inr u, out, w) \<Rightarrow> output_papers self out publications w)"

text \<open>
  \<^verbatim>\<open>export\<close>. The stream of the result is the text of \<^verbatim>\<open>path + ".rdf"\<close>; creating the
  directory and opening the document are taken to succeed. The closing tag of the
  envelope is written only when no paper has raised.
\<close>

definition export ::
  "exporter \<Rightarrow> string \<Rightarrow> paper list \<Rightarrow> collection list \<Rightarrow> world
     \<Rightarrow> (exn + unit) \<times> string \<times> world" where
  "export self path publications collections w =
     (let self = self\<lparr>ex_path := path\<rparr>;
          out = rdf_header
      in case output_papers self out publications w of
           (Inl e, out, w) \<Rightarrow> (Inl e, out, w)
         | (Inr u, out, w) \<Rightarrow>
             let out = foldl (\<lambda>out c. output_collection c out 1) out collections
             in (Inr (), out @ ''</rdf:RDF>'' @ NL, w))"

section \<open>Auxiliary definitions\<close>

text \<open>What the three replacements of \<^const>\<open>xml_escape\<close> make of one character, and the stages of undoing it.\<close>

definition esc_char :: "char \<Rightarrow> string" where
  "esc_char c =
     (if c = CHR ''&'' then ''&amp;'' else if c = CHR ''>'' then ''&gt;''
      else if c = CHR ''<'' then ''&lt;'' else [c])"

definition esc_char1 :: "char \<Rightarrow> string" where
  "esc_char1 c =
     (if c = CHR ''&'' then ''&amp;'' else if c = CHR ''>'' then ''&gt;'' else [c])"

definition esc_char2 :: "char \<Rightarrow> string" where
  "esc_char2 c = (if c = CHR ''&'' then ''&amp;'' else [c])"

text \<open>Lines 162 to 173 of \<^verbatim>\<open>output_paper\<close>, as \<^const>\<open>output_paper\<close> has them.\<close>

definition output_container ::
  "exporter \<Rightarrow> string \<Rightarrow> paper \<Rightarrow> nat \<Rightarrow> world \<Rightarrow> (exn + unit) \<times> string \<times> world" where
  "output_container self f paper indent w =
     (case p_container paper of
        None \<Rightarrow> (Inr (), f, w)
      | Some container \<Rightarrow>
          if embed_container self then
            (case output_paper self
                   (write_line f (indent + 1) (''<dcterms:isPartOf>'' @ NL) True)
                   container (indent + 2) w of
               (Inl e, f, w) \<Rightarrow> (Inl e, f, w)
             | (Inr u, f, w) \<Rightarrow>
                 (Inr (), write_line f (indent + 1) (''</dcterms:isPartOf>'' @ NL) True, w))
          else
            (Inr (),
             write_line f (indent + 1)
               (''<dcterms:isPartOf rdf:resource='' @ DQ @ p_uuid container @ DQ @ ''/>'' @ NL)
               True, w))"

text \<open>The stream after lines 102 to 112: opening tag, authors and item type.\<close>

definition paper_head :: "string \<Rightarrow> paper \<Rightarrow> nat \<Rightarrow> string \<Rightarrow> string" where
  "paper_head f paper indent ztype =
     output_paper_authors
       (write_line f indent
          (''<bib:Article rdf:about='' @ DQ @ ''#'' @ p_uuid paper @ DQ @ ''>'' @ NL) True)
       indent (p_authors paper)
     @ indentation indent @ ''  <z:itemType>'' @ ztype @ ''</z:itemType>'' @ NL"

text \<open>What lines 198 to 200 write for one note.\<close>

definition memo_fragment :: "nat \<Rightarrow> paper_note \<Rightarrow> string" where
  "memo_fragment indent n =
     indentation indent @ ''<bib:Memo rdf:about='' @ DQ @ ''#'' @ n_uuid n @ DQ @ ''>''
     @ indentation (indent + 1) @ py_str (escape (n_html n))
     @ indentation indent @ ''</bib:Memo>''"

section \<open>Example data\<close>

definition empty_world :: world where
  "empty_world = \<lparr>fs = Map.empty, log = [], embedded = []\<rparr>"

definition jane_doe :: author where
  "jane_doe = \<lparr>a_firstname = Some ''Jane'', a_surname = Some ''Doe''\<rparr>"

definition study_paper :: paper where
  "study_paper =
     Paper ''p1'' ''article-journal'' (Some ''A Study'') None None None None None [] True None
       [] None [jane_doe] [] []"

definition bold_note :: paper_note where
  "bold_note = \<lparr>n_uuid = ''n1'', n_title = None, n_html = Some ''<b>x</b>''\<rparr>"

definition memo_paper :: paper where
  "memo_paper =
     Paper ''p2'' ''report'' (Some ''Notes'') None None None None None [] False None
       [] None [] [bold_note] []"

definition volume_paper :: paper where
  "volume_paper =
     Paper ''p3'' ''article-journal'' (Some ''Numbers'') None (Some ''12'') None None None [] False
       None [] None [] [] []"

definition unknown_paper :: paper where
  "unknown_paper =
     Paper ''p4'' ''manuscript'' (Some ''Draft'') None None None None None [] False None
       [] None [] [] []"

definition amp_author :: author where
  "amp_author = \<lparr>a_firstname = Some ''J<K'', a_surname = Some ''A&B''\<rparr>"

definition annotating_exporter :: exporter where
  "annotating_exporter =
     \<lparr>embed_container = True, annotate = True, ex_path = ''out'', overwrite = False\<rparr>"

definition overwriting_exporter :: exporter where
  "overwriting_exporter =
     \<lparr>embed_container = True, annotate = True, ex_path = ''out'', overwrite = True\<rparr>"

text \<open>A file whose embedding succeeds, one that leaves half a copy and fails on I/O, one that
  fails with an exception of another class, and one that is not on disk.\<close>

definition annotated_file :: attachment where
  "annotated_file =
     \<lparr>f_uuid = ''f1'', f_path = ''/lib/a.pdf'', f_title = None, f_mimetype = None,
      f_exists = True, f_has_externalannotations = True,
      f_embed_annotations = (\<lambda>dest disk. (None, disk(dest \<mapsto> ''annotated'')))\<rparr>"

definition failing_file :: attachment where
  "failing_file =
     \<lparr>f_uuid = ''f2'', f_path = ''/lib/b.pdf'', f_title = None, f_mimetype = None,
      f_exists = True, f_has_externalannotations = True,
      f_embed_annotations = (\<lambda>dest disk. (Some IOError, disk(dest \<mapsto> ''half'')))\<rparr>"

definition crashing_file :: attachment where
  "crashing_file =
     \<lparr>f_uuid = ''f3'', f_path = ''/lib/c.pdf'', f_title = None, f_mimetype = None,
      f_exists = True, f_has_externalannotations = True,
      f_embed_annotations = (\<lambda>dest disk. (Some (OtherError ''boom''), disk(dest \<mapsto> ''half'')))\<rparr>"

definition missing_file :: attachment where
  "missing_file =
     \<lparr>f_uuid = ''f4'', f_path = ''/lib/d.pdf'', f_title = Some ''D'', f_mimetype = None,
      f_exists = False, f_has_externalannotations = False,
      f_embed_annotations = (\<lambda>dest disk. (None, disk))\<rparr>"

definition crash_paper :: paper where
  "crash_paper =
     Paper ''p5'' ''book'' (Some ''Crash'') None None None None None [] False None
       [] None [] [] [crashing_file]"

text \<open>A chapter whose container is \<^const>\<open>crash_paper\<close>, the world the failed embedding leaves,
  and what has been written of the chapter, at depth 1, when the container is reached.\<close>

definition nested_paper :: paper where
  "nested_paper =
     Paper ''p7'' ''chapter'' (Some ''Part'') None None None None None [] False (Some crash_paper)
       [] None [] [] []"

definition crash_world :: world where
  "crash_world =
     \<lparr>fs = Map.empty, log = [LogDebug ''lib/f3-c.pdf'' ''/lib/c.pdf''],
      embedded = [''lib/f3-c.pdf'']\<rparr>"

definition nested_text :: string where
  "nested_text =
     ''  <bib:Article rdf:about='' @ DQ @ ''#p7'' @ DQ @ ''>'' @ NL
     @ ''    <z:itemType>bookSection</z:itemType>'' @ NL
     @ ''    <dc:title>Part</dc:title>'' @ NL
     @ ''    <dcterms:isPartOf>'' @ NL"

definition cached_world :: world where
  "cached_world = \<lparr>fs = [''out/f1-a.pdf'' \<mapsto> ''stale''], log = [], embedded = []\<rparr>"

text \<open>What \<^const>\<open>output_paper\<close> writes for \<^const>\<open>study_paper\<close> and for \<^const>\<open>memo_paper\<close>.\<close>

definition study_text :: string where
  "study_text =
     ''<bib:Article rdf:about='' @ DQ @ ''#p1'' @ DQ @ ''>'' @ NL
     @ ''  <bib:authors><rdf:Seq>'' @ NL
     @ ''    <rdf:li>'' @ NL
     @ ''      <foaf:Person>'' @ NL
     @ ''        <foaf:surname>Doe</foaf:surname>'' @ NL
     @ ''        <foaf:givenname>Jane</foaf:givenname>'' @ NL
     @ ''      </foaf:Person>'' @ NL
     @ ''    </rdf:li>'' @ NL
     @ ''  </rdf:Seq></bib:authors>'' @ NL
     @ ''  <z:itemType>journalArticle</z:itemType>'' @ NL
     @ ''  <dc:title>A Study</dc:title>'' @ NL
     @ ''  <dc:subject>#read</dc:subject></bib:Article>'' @ NL @ NL"

definition memo_text :: string where
  "memo_text =
     ''<bib:Article rdf:about='' @ DQ @ ''#p2'' @ DQ @ ''>'' @ NL
     @ ''  <z:itemType>report</z:itemType>'' @ NL
     @ ''  <dc:title>Notes</dc:title>'' @ NL
     @ ''   <dcterms:isReferencedBy rdf:resource='' @ DQ @ ''#n1'' @ DQ @ ''/>'' @ NL
     @ ''</bib:Article>'' @ NL @ NL
     @ ''<bib:Memo rdf:about='' @ DQ @ ''#n1'' @ DQ @ ''>''
     @ ''  &lt;b&gt;x&lt;/b&gt;</bib:Memo>''"

section \<open>Escaping: auxiliary facts\<close>

text \<open>The three replacements of a single character act character by character.\<close>

lemma str_replace_single:
  "str_replace [a] new s = concat (map (\<lambda>c. if c = a then new else [c]) s)"
  by (induction s) auto

lemma xml_escape_chars: "xml_escape s = concat (map esc_char s)"
  unfolding xml_escape_def str_replace_single
  by (induction s) (auto simp: esc_char_def)

lemma unescape_lt:
  "str_replace ''&lt;'' ''<'' (concat (map esc_char s)) = concat (map esc_char1 s)"
  by (induction s) (auto simp: esc_char_def esc_char1_def)

lemma unescape_gt:
  "str_replace ''&gt;'' ''>'' (concat (map esc_char1 s)) = concat (map esc_char2 s)"
  by (induction s) (auto simp: esc_char1_def esc_char2_def)

lemma unescape_amp:
  "str_replace ''&amp;'' ''&'' (concat (map esc_char2 s)) = s"
  by (induction s) (auto simp: esc_char2_def)

section \<open>The stream only grows\<close>

text \<open>Every step of \<^const>\<open>output_paper\<close> appends to the stream it is given.\<close>

lemma output_paper_unfold:
  assumes "output_files self indent (p_files paper) [] [] w = (Inr attachments, appendout, w1)"
    and "map_of ZTYPE (p_type paper) = Some ztype"
  shows "output_paper self f paper indent w =
     (case output_container self
             (output_paper_fields (paper_head f paper indent ztype) indent paper attachments)
             paper indent w1 of
        (Inl e, f, w) \<Rightarrow> (Inl e, f, w)
      | (Inr u, f, w) \<Rightarrow>
          (case output_paper_memos (output_paper_trailer f indent paper ''Article'')
                  indent (p_notes paper) of
             (Inl e, f) \<Rightarrow> (Inl e, f, w)
           | (Inr u, f) \<Rightarrow> (Inr (), f @ appendout, w)))"
  by (subst output_paper.simps)
     (simp add: assms BIBTYPE_def output_container_def paper_head_def indentation_def Let_def
        cong: prod.case_cong sum.case_cong option.case_cong if_cong)

lemma prefix_write_line: "prefix f (write_line f indent s c)"
  by (simp add: write_line_def)

lemma prefix_foldl:
  assumes "\<And>g x. prefix g (h g x)"
  shows "prefix f (foldl h f xs)"
proof (induction xs arbitrary: f)
  case Nil
  show ?case by simp
next
  case (Cons x xs)
  have "prefix f (h f x)" by (rule assms)
  also have "prefix (h f x) (foldl h (h f x) xs)" by (rule Cons.IH)
  finally show ?case by simp
qed

lemma prefix_output_author: "prefix f (output_author author f indent)"
  by (simp add: output_author_def write_line_def)

lemma prefix_output_paper_authors: "prefix f (output_paper_authors f indent authors)"
proof -
  have "prefix (write_line f (indent + 1) (''<bib:authors><rdf:Seq>'' @ NL) True)
     (foldl (\<lambda>f author.
                  let f = write_line f (indent + 2) (''<rdf:li>'' @ NL) True;
                      f = output_author author f (indent + 3)
                  in write_line f (indent + 2) (''</rdf:li>'' @ NL) True)
        (write_line f (indent + 1) (''<bib:authors><rdf:Seq>'' @ NL) True) authors)"
    by (rule prefix_foldl) (simp add: output_author_def write_line_def)
  then show ?thesis
    by (auto simp: output_paper_authors_def Let_def write_line_def prefix_def)
qed

lemma prefix_paper_head: "prefix f (paper_head f paper indent ztype)"
proof -
  have "prefix f (write_line f indent
          (''<bib:Article rdf:about='' @ DQ @ ''#'' @ p_uuid paper @ DQ @ ''>'' @ NL) True)"
    by (rule prefix_write_line)
  also have "prefix \<dots> (output_paper_authors \<dots> indent (p_authors paper))"
    by (rule prefix_output_paper_authors)
  finally show ?thesis
    unfolding paper_head_def by (rule prefix_prefix)
qed

lemma prefix_output_paper_fields: "prefix f (output_paper_fields f indent paper attachments)"
  unfolding output_paper_fields_def Let_def
  by (intro prefix_order.trans [OF _ prefix_foldl] prefix_order.trans [OF _ prefix_write_line]
        prefix_write_line prefix_order.refl
      | simp split: option.split | intro conjI impI allI)+

lemma prefix_output_paper_trailer: "prefix f (output_paper_trailer f indent paper gtype)"
  unfolding output_paper_trailer_def Let_def
  by (intro prefix_order.trans [OF _ prefix_foldl] prefix_order.trans [OF _ prefix_write_line]
        prefix_write_line prefix_order.refl
      | simp split: option.split | intro conjI impI allI)+

lemma prefix_output_paper_memos: "prefix f (snd (output_paper_memos f indent ns))"
proof (induction ns arbitrary: f)
  case Nil
  show ?case by simp
next
  case (Cons n ns)
  show ?case
  proof (cases "n_html n")
    case None
    then show ?thesis by (simp add: escape_def write_line_def)
  next
    case (Some body)
    have "prefix f (write_line (write_line (write_line f indent
          (''<bib:Memo rdf:about='' @ DQ @ ''#'' @ n_uuid n @ DQ @ ''>'') True)
          (indent + 1) (xml_escape body) True) indent ''</bib:Memo>'' True)"
      by (simp add: write_line_def)
    also note Cons.IH
    finally show ?thesis
      using Some by (simp add: escape_def Let_def)
  qed
qed

lemma output_paper_cases:
  obtains (files_raise) e buf w1 where
      "output_files self indent (p_files paper) [] [] w = (Inl e, buf, w1)"
      "output_paper self f paper indent w = (Inl e, f, w1)"
  | (unknown_type) attachments buf w1 where
      "output_files self indent (p_files paper) [] [] w = (Inr attachments, buf, w1)"
      "map_of ZTYPE (p_type paper) = None"
      "fst (output_paper self f paper indent w) = Inl (KeyError (p_type paper))"
      "prefix f (fst (snd (output_paper self f paper indent w)))"
  | (known_type) attachments buf w1 ztype where
      "output_files self indent (p_files paper) [] [] w = (Inr attachments, buf, w1)"
      "map_of ZTYPE (p_type paper) = Some ztype"
proof (cases "output_files self indent (p_files paper) [] [] w")
  case (fields r buf w1)
  show ?thesis
  proof (cases r)
    case (Inl e)
    with fields have "output_paper self f paper indent w = (Inl e, f, w1)"
      by (subst output_paper.simps) simp
    with fields Inl show ?thesis by (auto intro: files_raise)
  next
    case (Inr attachments)
    show ?thesis
    proof (cases "map_of ZTYPE (p_type paper)")
      case None
      have "prefix f (output_paper_authors (write_line f indent
             (''<bib:Article rdf:about='' @ DQ @ ''#'' @ p_uuid paper @ DQ @ ''>'' @ NL) True)
             indent (p_authors paper))"
        by (rule prefix_order.trans [OF prefix_write_line prefix_output_paper_authors])
      then have "fst (output_paper self f paper indent w) = Inl (KeyError (p_type paper)) \<and>
         prefix f (fst (snd (output_paper self f paper indent w)))"
        using fields Inr None
        by (subst (1 2) output_paper.simps) (simp add: Let_def BIBTYPE_def)
      with fields Inr None show ?thesis by (auto intro: unknown_type)
    next
      case (Some ztype)
      with fields Inr show ?thesis by (auto intro: known_type)
    qed
  qed
qed

lemma prefix_output_paper:
  "prefix f (fst (snd (output_paper self f paper indent w)))"
proof (induction "size paper" arbitrary: f paper indent w rule: less_induct)
  case less
  show ?case
  proof (cases rule: output_paper_cases [of self indent paper w f])
    case (files_raise e buf w1)
    then show ?thesis by simp
  next
    case (unknown_type attachments buf w1)
    then show ?thesis by simp
  next
    case (known_type attachments buf w1 ztype)
    define f2 where "f2 = output_paper_fields (paper_head f paper indent ztype) indent paper attachments"
    have f2: "prefix f f2"
      unfolding f2_def
      by (rule prefix_order.trans [OF prefix_paper_head prefix_output_paper_fields])
    have container: "prefix f2 (fst (snd (output_container self f2 paper indent w1)))"
    proof (cases "p_container paper")
      case None
      then show ?thesis by (simp add: output_container_def)
    next
      case (Some c)
      have "size c < size paper"
        using Some by (rule container_smaller)
      from less [OF this]
      have "prefix (write_line f2 (indent + 1) (''<dcterms:isPartOf>'' @ NL) True)
          (fst (snd (output_paper self
             (write_line f2 (indent + 1) (''<dcterms:isPartOf>'' @ NL) True) c (indent + 2) w1)))" .
      with prefix_write_line
      have "prefix f2 (fst (snd (output_paper self
             (write_line f2 (indent + 1) (''<dcterms:isPartOf>'' @ NL) True) c (indent + 2) w1)))"
        by (rule prefix_order.trans)
      then show ?thesis
        using Some
        by (auto simp: output_container_def prefix_write_line split: prod.splits sum.splits
              intro: prefix_order.trans [OF _ prefix_write_line])
    qed
    obtain r f3 w3 where step: "output_container self f2 paper indent w1 = (r, f3, w3)"
      by (cases "output_container self f2 paper indent w1") auto
    have f3: "prefix f f3"
      using f2 container step by auto
    have "prefix f3 (snd (output_paper_memos (output_paper_trailer f3 indent paper ''Article'')
        indent (p_notes paper)))"
      by (rule prefix_order.trans [OF prefix_output_paper_trailer prefix_output_paper_memos])
    with f3 have "prefix f (snd (output_paper_memos (output_paper_trailer f3 indent paper ''Article'')
        indent (p_notes paper)))"
      by (rule prefix_order.trans)
    then show ?thesis
      using f3 step
      by (auto simp: output_paper_unfold [OF known_type] f2_def [symmetric]
            split: prod.splits sum.splits)
  qed
qed

lemma prefix_output_container:
  "prefix f (fst (snd (output_container self f paper indent w)))"
proof (cases "p_container paper")
  case None
  then show ?thesis by (simp add: output_container_def)
next
  case (Some c)
  have "prefix f (write_line f (indent + 1) (''<dcterms:isPartOf>'' @ NL) True)"
    by (rule prefix_write_line)
  also have "prefix \<dots> (fst (snd (output_paper self \<dots> c (indent + 2) w)))"
    by (rule prefix_output_paper)
  finally show ?thesis
    using Some
    by (auto simp: output_container_def prefix_write_line split: prod.splits sum.splits
          intro: prefix_order.trans [OF _ prefix_write_line])
qed

lemma output_paper_emits_head:
  assumes "output_files self indent (p_files paper) [] [] w = (Inr attachments, buf, w1)"
    and "map_of ZTYPE (p_type paper) = Some ztype"
  shows "prefix (output_paper_fields (paper_head f paper indent ztype) indent paper attachments)
     (fst (snd (output_paper self f paper indent w)))"
proof -
  define f2 where "f2 = output_paper_fields (paper_head f paper indent ztype) indent paper attachments"
  obtain r f3 w3 where step: "output_container self f2 paper indent w1 = (r, f3, w3)"
    by (cases "output_container self f2 paper indent w1") auto
  have f3: "prefix f2 f3"
    using prefix_output_container [of f2 self paper indent w1] step by simp
  have "prefix f3 (snd (output_paper_memos (output_paper_trailer f3 indent paper ''Article'')
        indent (p_notes paper)))"
    by (rule prefix_order.trans [OF prefix_output_paper_trailer prefix_output_paper_memos])
  with f3 have "prefix f2 (snd (output_paper_memos (output_paper_trailer f3 indent paper ''Article'')
        indent (p_notes paper)))"
    by (rule prefix_order.trans)
  then have "prefix f2 (fst (snd (output_paper self f paper indent w)))"
    using f3 step
    by (auto simp: output_paper_unfold [OF assms] f2_def [symmetric]
          split: prod.splits sum.splits)
  then show ?thesis
    by (simp add: f2_def)
qed

lemma sublist_prefix_trans: "sublist x a \<Longrightarrow> prefix a b \<Longrightarrow> sublist x b"
  by (auto simp: sublist_def prefix_def) (metis append.assoc)

lemma fields_emit_number:
  assumes "p_volume paper \<noteq> None"
  shows "sublist (''<prism:number>'' @ py_str (escape (p_number paper)) @ ''</prism:number>'' @ NL)
     (output_paper_fields g indent paper attachments)"
proof -
  define line where "line = ''<prism:number>'' @ py_str (escape (p_number paper)) @ ''</prism:number>'' @ NL"
  define g' where "g' = write_line
      (case p_abstract paper of
         None \<Rightarrow> write_line g (indent + 1)
                (''<dc:title>'' @ py_str (escape (p_title paper)) @ ''</dc:title>'' @ NL) True
       | Some abstract \<Rightarrow>
           write_line (write_line g (indent + 1)
                (''<dc:title>'' @ py_str (escape (p_title paper)) @ ''</dc:title>'' @ NL) True) (indent + 1)
             (''<dcterms:abstract>'' @ py_str (escape abstract) @ ''</dcterms:abstract>'' @ NL)
             (truthy abstract))
      (indent + 1)
      (''<prism:volume>'' @ py_str (escape (p_volume paper)) @ ''</prism:volume>'' @ NL) True"
  have "prefix (write_line g' (indent + 1) line True)
     (output_paper_fields g indent paper attachments)"
    unfolding output_paper_fields_def Let_def line_def [symmetric] g'_def [symmetric]
    using assms
    by (intro prefix_order.refl prefix_order.trans [OF _ prefix_foldl]
          prefix_order.trans [OF _ prefix_write_line] conjI impI
        | simp only: if_True if_False not_False_eq_True not_not split: if_split)+
  moreover have "sublist line (write_line g' (indent + 1) line True)"
    by (rule suffix_imp_sublist) (simp add: write_line_def suffix_def)
  ultimately show ?thesis
    unfolding line_def by (rule sublist_prefix_trans [rotated])
qed

lemma head_emits_item_type:
  "suffix (''<z:itemType>'' @ ztype @ ''</z:itemType>'' @ NL) (paper_head f paper indent ztype)"
  by (simp add: paper_head_def suffix_def)

lemma head_opening_tag:
  "prefix (f @ indentation indent @ ''<bib:Article rdf:about='' @ DQ @ ''#'' @ p_uuid paper @ DQ @ ''>'' @ NL)
     (paper_head f paper indent ztype)"
proof -
  have "prefix (write_line f indent
          (''<bib:Article rdf:about='' @ DQ @ ''#'' @ p_uuid paper @ DQ @ ''>'' @ NL) True)
       (output_paper_authors (write_line f indent
          (''<bib:Article rdf:about='' @ DQ @ ''#'' @ p_uuid paper @ DQ @ ''>'' @ NL) True)
          indent (p_authors paper))"
    by (rule prefix_output_paper_authors)
  then have "prefix (write_line f indent
          (''<bib:Article rdf:about='' @ DQ @ ''#'' @ p_uuid paper @ DQ @ ''>'' @ NL) True)
       (paper_head f paper indent ztype)"
    unfolding paper_head_def by (rule prefix_prefix)
  then show ?thesis
    by (simp add: write_line_def indentation_def)
qed

lemma output_paper_memos_success:
  "output_paper_memos g indent ns = (Inr u, g') \<Longrightarrow>
     g' = g @ concat (map (memo_fragment indent) ns) \<and>
     (\<forall>n \<in> set ns. \<exists>html. n_html n = Some html)"
proof (induction ns arbitrary: g)
  case Nil
  then show ?case by simp
next
  case (Cons n ns)
  from Cons.prems obtain html where html: "n_html n = Some html"
    by (cases "n_html n") (auto simp: escape_def Let_def)
  from Cons.prems html
  have "output_paper_memos
      (write_line (write_line (write_line g indent
          (''<bib:Memo rdf:about='' @ DQ @ ''#'' @ n_uuid n @ DQ @ ''>'') True)
          (indent + 1) (xml_escape html) True) indent ''</bib:Memo>'' True) indent ns = (Inr u, g')"
    by (simp add: escape_def Let_def)
  from Cons.IH [OF this] html show ?case
    by (simp add: memo_fragment_def write_line_def indentation_def escape_def py_str_def)
qed

lemma trailer_closing_tag:
  "\<exists>body. output_paper_trailer g indent paper gtype =
     body @ indentation indent @ ''</bib:'' @ gtype @ ''>'' @ NL @ NL"
  by (simp add: output_paper_trailer_def Let_def write_line_def [of _ indent] indentation_def)

section \<open>Files and exceptions\<close>

lemma output_file_missing:
  "\<not> f_exists file \<Longrightarrow> output_file self out file indent w = (Inr False, out, w)"
  by (simp add: output_file_def)

lemma output_files_missing:
  "\<not> f_exists file \<Longrightarrow>
     output_files self indent (pre @ file # post) attachments out w =
     output_files self indent (pre @ post) attachments out w"
  by (induction pre arbitrary: attachments out w)
     (auto simp: output_file_missing split: prod.splits sum.splits)

lemma resolve_path_failure:
  assumes "annotate self" "f_has_externalannotations file"
    and "fs w (destination self file) = None \<or> fs w (destination self file) = Some []"
    and "f_embed_annotations file (destination self file) (fs w) = (Some e, disk)"
  shows "resolve_path self file w =
     (if e = PdfReadError \<or> e = IOError then Inr (f_path file) else Inl e,
      \<lparr>fs = disk(destination self file := None),
       log = log w @ [LogDebug (destination self file) (f_path file)]
               @ (if e = PdfReadError \<or> e = IOError then [LogError e] else []),
       embedded = embedded w @ [destination self file]\<rparr>)"
  using assms by (auto simp: resolve_path_def Let_def)

lemma resolve_path_plain:
  "\<not> annotate self \<Longrightarrow> resolve_path self file w = (Inr (f_path file), w)"
  by (simp add: resolve_path_def)

lemma output_paper_files_raise:
  assumes "output_files self indent (p_files paper) [] [] w = (Inl e, buf, w')"
  shows "output_paper self f paper indent w = (Inl e, f, w')"
  by (subst output_paper.simps) (simp add: assms)

lemma output_papers_append:
  "output_papers self out before w = (Inr (), out1, w1) \<Longrightarrow>
     output_papers self out (before @ rest) w = output_papers self out1 rest w1"
  by (induction before arbitrary: out w) (auto split: prod.splits sum.splits)

lemma export_raise:
  "output_papers (self\<lparr>ex_path := path\<rparr>) rdf_header publications w = (Inl e, out, w') \<Longrightarrow>
     export self path publications collections w = (Inl e, out, w')"
  by (simp add: export_def)

lemma output_paper_unknown_type:
  assumes "map_of ZTYPE (p_type paper) = None"
  shows "case output_files self indent (p_files paper) [] [] w of
       (Inl e, buf, w') \<Rightarrow> fst (output_paper self f paper indent w) = Inl e
     | (Inr attachments, buf, w') \<Rightarrow>
         fst (output_paper self f paper indent w) = Inl (KeyError (p_type paper))"
  by (subst (1 2) output_paper.simps) (simp add: assms Let_def split: prod.splits sum.splits)

lemma output_paper_unknown_raises:
  assumes "map_of ZTYPE (p_type paper) = None"
  shows "\<exists>e. fst (output_paper self f paper indent w) = Inl e"
  using output_paper_unknown_type [OF assms, where self = self and indent = indent and w = w and f = f]
  by (auto split: prod.splits sum.splits)

lemma output_papers_unknown_raises:
  assumes "map_of ZTYPE (p_type paper) = None" "paper \<in> set publications"
  shows "\<exists>e. fst (output_papers self out publications w) = Inl e"
  using assms(2)
proof (induction publications arbitrary: out w)
  case Nil
  then show ?case by simp
next
  case (Cons p publications)
  obtain r out' w' where step: "output_paper self out p 1 w = (r, out', w')"
    by (cases "output_paper self out p 1 w") auto
  show ?case
  proof (cases r)
    case (Inl e)
    with step show ?thesis by simp
  next
    case (Inr u)
    have "p \<noteq> paper"
      using output_paper_unknown_raises [OF assms(1), of self out 1 w] step Inr by auto
    with Cons.prems have "paper \<in> set publications" by auto
    from Cons.IH [OF this, of out' w'] show ?thesis
      using step Inr by simp
  qed
qed

section \<open>The examples, evaluated\<close>

lemmas eval_defs =
  new_exporter_def empty_world_def BIBTYPE_def ZTYPE_def Let_def
  output_paper_authors_def output_author_def write_line_def indentation_def py_str_def escape_def
  xml_escape_def output_paper_fields_def output_paper_trailer_def truthy_def eval_nat_numeral

lemma study_paper_output:
  "output_paper new_exporter [] study_paper 0 empty_world = (Inr (), study_text, empty_world)"
  by (subst output_paper.simps)
     (simp add: eval_defs study_paper_def jane_doe_def study_text_def)

lemma memo_paper_output:
  "output_paper new_exporter [] memo_paper 0 empty_world = (Inr (), memo_text, empty_world)"
  by (subst output_paper.simps)
     (simp add: eval_defs memo_paper_def bold_note_def memo_text_def)

lemma overwriting_destination:
  "destination overwriting_exporter annotated_file = ''out/f1-a.pdf''"
  by (simp add: destination_def overwriting_exporter_def annotated_file_def filechars_sub_def
        RE_FILECHARS_def op_join_def op_basename_def suffix_def)

lemma crash_destination:
  "destination (annotating_exporter\<lparr>ex_path := ''lib''\<rparr>) crashing_file = ''lib/f3-c.pdf''"
  by (simp add: destination_def annotating_exporter_def crashing_file_def filechars_sub_def
        RE_FILECHARS_def op_join_def op_basename_def suffix_def)

lemma crash_paper_files:
  "\<exists>buf. output_files (annotating_exporter\<lparr>ex_path := ''lib''\<rparr>) indent (p_files crash_paper)
      [] [] empty_world = (Inl (OtherError ''boom''), buf, crash_world)"
  by (simp add: crash_paper_def output_file_def resolve_path_def crash_destination Let_def)
     (simp add: crashing_file_def annotating_exporter_def empty_world_def crash_world_def)

lemma crash_paper_output:
  "output_paper (annotating_exporter\<lparr>ex_path := ''lib''\<rparr>) f crash_paper indent empty_world =
     (Inl (OtherError ''boom''), f, crash_world)"
  using crash_paper_files [of indent] by (auto intro: output_paper_files_raise)

lemma annotating_embeds: "embed_container (annotating_exporter\<lparr>ex_path := ''lib''\<rparr>)"
  by (simp add: annotating_exporter_def)

lemma nested_paper_output:
  "output_paper (annotating_exporter\<lparr>ex_path := ''lib''\<rparr>) rdf_header nested_paper (Suc 0)
       empty_world =
     (Inl (OtherError ''boom''), rdf_header @ nested_text, crash_world)"
  by (subst output_paper.simps)
     (simp add: nested_paper_def crash_paper_output annotating_embeds
        BIBTYPE_def ZTYPE_def Let_def output_paper_authors_def write_line_def indentation_def
        py_str_def escape_def xml_escape_def output_paper_fields_def truthy_def nested_text_def)

section \<open>The claims\<close>

subsection \<open>C1: the tag of the item element\<close>

text \<open>
  C1, as the code has it. \<^const>\<open>BIBTYPE\<close> is empty, so the lookup of line 93 always gives
  its default: for every paper whose type is a key of \<^const>\<open>ZTYPE\<close> and whose files do
  not raise, the fragment opens with the tag \<open>bib:Article\<close> and the paper's identifier,
  goes on with the head of the fragment (opening tag, authors, item type), and holds a
  \<open>z:itemType\<close> element whose text is the mapped type.
\<close>

theorem item_tag_is_article:
  assumes "output_files self indent (p_files paper) [] [] w = (Inr attachments, buf, w1)"
    and "map_of ZTYPE (p_type paper) = Some ztype"
  shows "prefix (f @ indentation indent @ ''<bib:Article rdf:about='' @ DQ @ ''#'' @ p_uuid paper
                   @ DQ @ ''>'' @ NL)
       (fst (snd (output_paper self f paper indent w))) \<and>
     prefix (paper_head f paper indent ztype) (fst (snd (output_paper self f paper indent w))) \<and>
     sublist (''<z:itemType>'' @ ztype @ ''</z:itemType>'' @ NL)
       (fst (snd (output_paper self f paper indent w)))"
proof -
  have "prefix (paper_head f paper indent ztype)
      (output_paper_fields (paper_head f paper indent ztype) indent paper attachments)"
    by (rule prefix_output_paper_fields)
  also note output_paper_emits_head [OF assms]
  finally have head: "prefix (paper_head f paper indent ztype)
      (fst (snd (output_paper self f paper indent w)))" .
  from head_opening_tag this
  have tag: "prefix (f @ indentation indent @ ''<bib:Article rdf:about='' @ DQ @ ''#''
         @ p_uuid paper @ DQ @ ''>'' @ NL)
       (fst (snd (output_paper self f paper indent w)))"
    by (rule prefix_order.trans)
  have "sublist (''<z:itemType>'' @ ztype @ ''</z:itemType>'' @ NL)
      (paper_head f paper indent ztype)"
    by (rule suffix_imp_sublist) (rule head_emits_item_type)
  from this head
  have "sublist (''<z:itemType>'' @ ztype @ ''</z:itemType>'' @ NL)
      (fst (snd (output_paper self f paper indent w)))"
    by (rule sublist_prefix_trans)
  with tag head show ?thesis
    by blast
qed

text \<open>The paper of the specification's example meets the hypotheses.\<close>

theorem item_tag_is_article_witness:
  "output_files new_exporter 0 (p_files study_paper) [] [] empty_world = (Inr [], [], empty_world) \<and>
   map_of ZTYPE (p_type study_paper) = Some ''journalArticle'' \<and>
   prefix (''<bib:Article rdf:about='' @ DQ @ ''#p1'' @ DQ @ ''>'' @ NL)
     (fst (snd (output_paper new_exporter [] study_paper 0 empty_world))) \<and>
   prefix (paper_head [] study_paper 0 ''journalArticle'')
     (fst (snd (output_paper new_exporter [] study_paper 0 empty_world))) \<and>
   sublist (''<z:itemType>journalArticle</z:itemType>'' @ NL)
     (fst (snd (output_paper new_exporter [] study_paper 0 empty_world)))"
proof -
  have files: "output_files new_exporter 0 (p_files study_paper) [] [] empty_world =
      (Inr [], [], empty_world)"
    by (simp add: study_paper_def)
  have known: "map_of ZTYPE (p_type study_paper) = Some ''journalArticle''"
    by (simp add: study_paper_def ZTYPE_def)
  have uuid: "p_uuid study_paper = ''p1''"
    by (simp add: study_paper_def)
  from item_tag_is_article [OF files known, where f = "[]"] show ?thesis
    using files known by (simp add: indentation_def uuid)
qed

text \<open>
  C1 as stated fails: the type \<open>article-journal\<close> is mapped to \<open>journalArticle\<close>, and the
  fragment of the example paper opens with \<open>bib:Article\<close> and never names
  \<open>bib:journalArticle\<close>.
\<close>

theorem item_tag_counterexample:
  "map_of ZTYPE (p_type study_paper) = Some ''journalArticle'' \<and>
   fst (output_paper new_exporter [] study_paper 0 empty_world) = Inr () \<and>
   prefix ''<bib:Article '' (fst (snd (output_paper new_exporter [] study_paper 0 empty_world))) \<and>
   \<not> sublist ''bib:journalArticle''
        (fst (snd (output_paper new_exporter [] study_paper 0 empty_world)))"
  unfolding study_paper_output
  by (simp add: study_paper_def ZTYPE_def study_text_def sublist_Cons_right)

subsection \<open>C2: the body of a memo\<close>

text \<open>
  C2, as the code has it. When \<^const>\<open>output_paper\<close> returns, the stream ends with the
  closing tag of the paper, one memo per note in order, and the buffer of the
  attachments; the body of each memo is the note's \<open>html\<close> after \<^const>\<open>xml_escape\<close>,
  between the opening and the closing tag of the memo.
\<close>

theorem memo_bodies_are_escaped:
  assumes "output_paper self f paper indent w = (Inr (), out, w')"
  shows "\<exists>body attachments buf w1.
       output_files self indent (p_files paper) [] [] w = (Inr attachments, buf, w1) \<and>
       out = body @ indentation indent @ ''</bib:Article>'' @ NL @ NL
               @ concat (map (memo_fragment indent) (p_notes paper)) @ buf \<and>
       (\<forall>n \<in> set (p_notes paper). \<exists>html. n_html n = Some html \<and>
          memo_fragment indent n =
            indentation indent @ ''<bib:Memo rdf:about='' @ DQ @ ''#'' @ n_uuid n @ DQ @ ''>''
            @ indentation (indent + 1) @ xml_escape html
            @ indentation indent @ ''</bib:Memo>'')"
proof (cases rule: output_paper_cases [of self indent paper w f])
  case (files_raise e buf w1)
  with assms show ?thesis by simp
next
  case (unknown_type attachments buf w1)
  with assms show ?thesis by simp
next
  case (known_type attachments buf w1 ztype)
  define f2 where "f2 = output_paper_fields (paper_head f paper indent ztype) indent paper attachments"
  obtain r f3 w3 where step: "output_container self f2 paper indent w1 = (r, f3, w3)"
    by (cases "output_container self f2 paper indent w1") auto
  obtain r' f5 where memos: "output_paper_memos (output_paper_trailer f3 indent paper ''Article'')
        indent (p_notes paper) = (r', f5)"
    by (cases "output_paper_memos (output_paper_trailer f3 indent paper ''Article'')
        indent (p_notes paper)") auto
  from assms have r: "r = Inr ()" and r': "r' = Inr ()" and out: "out = f5 @ buf"
    using step memos
    by (auto simp: output_paper_unfold [OF known_type] f2_def [symmetric]
          split: sum.splits)
  from output_paper_memos_success [OF memos [unfolded r']]
  have f5: "f5 = output_paper_trailer f3 indent paper ''Article''
        @ concat (map (memo_fragment indent) (p_notes paper))"
    and html: "\<forall>n \<in> set (p_notes paper). \<exists>html. n_html n = Some html"
    by auto
  obtain body where body: "output_paper_trailer f3 indent paper ''Article'' =
     body @ indentation indent @ ''</bib:Article>'' @ NL @ NL"
    using trailer_closing_tag [of f3 indent paper "''Article''"] by auto
  have "out = body @ indentation indent @ ''</bib:Article>'' @ NL @ NL
               @ concat (map (memo_fragment indent) (p_notes paper)) @ buf"
    by (simp add: out f5 body)
  moreover have "\<forall>n \<in> set (p_notes paper). \<exists>html. n_html n = Some html \<and>
          memo_fragment indent n =
            indentation indent @ ''<bib:Memo rdf:about='' @ DQ @ ''#'' @ n_uuid n @ DQ @ ''>''
            @ indentation (indent + 1) @ xml_escape html
            @ indentation indent @ ''</bib:Memo>''"
    using html by (auto simp: memo_fragment_def escape_def py_str_def)
  ultimately show ?thesis
    using known_type(1) by blast
qed

text \<open>A paper with one note whose body is markup.\<close>

theorem memo_bodies_are_escaped_witness:
  "output_paper new_exporter [] memo_paper 0 empty_world = (Inr (), memo_text, empty_world) \<and>
   (\<exists>body. memo_text = body @ ''</bib:Article>'' @ NL @ NL @ memo_fragment 0 bold_note) \<and>
   memo_fragment 0 bold_note =
     ''<bib:Memo rdf:about='' @ DQ @ ''#n1'' @ DQ @ ''>'' @ ''  '' @ xml_escape ''<b>x</b>''
     @ ''</bib:Memo>''"
proof -
  from memo_bodies_are_escaped [OF memo_paper_output]
  obtain body attachments buf w1 where
    files: "output_files new_exporter 0 (p_files memo_paper) [] [] empty_world =
      (Inr attachments, buf, w1)"
    and shape: "memo_text = body @ indentation 0 @ ''</bib:Article>'' @ NL @ NL
               @ concat (map (memo_fragment 0) (p_notes memo_paper)) @ buf"
    and html: "\<forall>n \<in> set (p_notes memo_paper). \<exists>html. n_html n = Some html \<and>
          memo_fragment 0 n =
            indentation 0 @ ''<bib:Memo rdf:about='' @ DQ @ ''#'' @ n_uuid n @ DQ @ ''>''
            @ indentation (0 + 1) @ xml_escape html
            @ indentation 0 @ ''</bib:Memo>''"
    by blast
  from files have buf: "buf = []"
    by (simp add: memo_paper_def)
  have ns: "p_notes memo_paper = [bold_note]"
    by (simp add: memo_paper_def)
  from shape have "memo_text = body @ ''</bib:Article>'' @ NL @ NL @ memo_fragment 0 bold_note"
    by (simp add: buf ns indentation_def)
  moreover from html have "memo_fragment 0 bold_note =
     ''<bib:Memo rdf:about='' @ DQ @ ''#n1'' @ DQ @ ''>'' @ ''  '' @ xml_escape ''<b>x</b>''
     @ ''</bib:Memo>''"
    by (simp add: ns bold_note_def indentation_def)
  ultimately show ?thesis
    using memo_paper_output by blast
qed

text \<open>
  C2 as stated fails: the body \<open><b>x</b>\<close> of the note is nowhere in the text written
  for the paper; its escaped form is.
\<close>

theorem memo_body_counterexample:
  "n_html bold_note = Some ''<b>x</b>'' \<and>
   p_notes memo_paper = [bold_note] \<and>
   fst (output_paper new_exporter [] memo_paper 0 empty_world) = Inr () \<and>
   \<not> sublist ''<b>x</b>'' (fst (snd (output_paper new_exporter [] memo_paper 0 empty_world))) \<and>
   sublist ''&lt;b&gt;x&lt;/b&gt;''
     (fst (snd (output_paper new_exporter [] memo_paper 0 empty_world)))"
  unfolding memo_paper_output
  by (simp add: memo_paper_def bold_note_def memo_text_def sublist_Cons_right)

subsection \<open>C3: the names of an author\<close>

text \<open>
  C3 does not hold of \<^const>\<open>output_author\<close>: lines 208 and 209 format the surname and the
  first name as they are, while every other text field goes through \<^const>\<open>escape\<close>.
  For an author named \<open>A&B\<close>, \<open>J<K\<close> the fragment holds both names unescaped; escaping
  would have given \<open>A&amp;B\<close> and \<open>J&lt;K\<close>. The fragment has no identifier.
\<close>

theorem output_author_not_escaped:
  "output_author amp_author [] 0 =
     ''<foaf:Person>'' @ NL
     @ ''  <foaf:surname>A&B</foaf:surname>'' @ NL
     @ ''  <foaf:givenname>J<K</foaf:givenname>'' @ NL
     @ ''</foaf:Person>'' @ NL \<and>
   py_str (escape (a_surname amp_author)) = ''A&amp;B'' \<and>
   py_str (escape (a_firstname amp_author)) = ''J&lt;K''"
  by (simp add: output_author_def amp_author_def write_line_def indentation_def py_str_def
        escape_def xml_escape_def)

subsection \<open>C4: an annotated copy that is already there\<close>

text \<open>
  C4 does not hold of \<^const>\<open>output_file\<close> where \<open>overwrite\<close> is set: line 246 looks at
  the destination only. With \<open>annotate\<close> and \<open>overwrite\<close> both set and a destination
  that exists and is not empty, \<^verbatim>\<open>embed_annotations\<close> is not called and the old copy
  stays.
\<close>

theorem overwrite_is_ignored:
  "annotate overwriting_exporter \<and> overwrite overwriting_exporter \<and>
   f_exists annotated_file \<and> f_has_externalannotations annotated_file \<and>
   destination overwriting_exporter annotated_file = ''out/f1-a.pdf'' \<and>
   fs cached_world ''out/f1-a.pdf'' = Some ''stale'' \<and>
   fst (output_file overwriting_exporter [] annotated_file 0 cached_world) = Inr True \<and>
   embedded (snd (snd (output_file overwriting_exporter [] annotated_file 0 cached_world))) = [] \<and>
   fs (snd (snd (output_file overwriting_exporter [] annotated_file 0 cached_world)))
     ''out/f1-a.pdf'' = Some ''stale''"
  by (simp add: output_file_def resolve_path_def overwriting_destination Let_def)
     (simp add: overwriting_exporter_def annotated_file_def cached_world_def)

subsection \<open>C5: a type that is not mapped\<close>

text \<open>
  C5. When a paper of the list has a type that is not a key of \<^const>\<open>ZTYPE\<close>,
  \<^const>\<open>export\<close> ends with an exception, and its stream is the stream the loop over the
  papers left: no collection and no closing tag of the envelope is written after it. For
  the paper itself, \<^const>\<open>output_paper\<close> raises the exception of its files if one of
  them raises, and the \<^verbatim>\<open>KeyError\<close> of the type otherwise.
\<close>

theorem unknown_type_raises:
  assumes "map_of ZTYPE (p_type paper) = None" "paper \<in> set publications"
  shows "(\<exists>e. fst (export self path publications collections w) = Inl e) \<and>
     snd (export self path publications collections w) =
       snd (output_papers (self\<lparr>ex_path := path\<rparr>) rdf_header publications w) \<and>
     (case output_files self indent (p_files paper) [] [] w of
        (Inl e, buf, w') \<Rightarrow> fst (output_paper self f paper indent w) = Inl e
      | (Inr attachments, buf, w') \<Rightarrow>
          fst (output_paper self f paper indent w) = Inl (KeyError (p_type paper)))"
proof -
  obtain e where "fst (output_papers (self\<lparr>ex_path := path\<rparr>) rdf_header publications w) = Inl e"
    using output_papers_unknown_raises [OF assms] by blast
  then have "fst (export self path publications collections w) = Inl e \<and>
     snd (export self path publications collections w) =
       snd (output_papers (self\<lparr>ex_path := path\<rparr>) rdf_header publications w)"
    by (cases "output_papers (self\<lparr>ex_path := path\<rparr>) rdf_header publications w")
       (simp add: export_def)
  moreover note output_paper_unknown_type
    [OF assms(1), where self = self and indent = indent and w = w and f = f]
  ultimately show ?thesis
    by blast
qed

text \<open>A list of two papers, the second of an unmapped type.\<close>

theorem unknown_type_raises_witness:
  "map_of ZTYPE (p_type unknown_paper) = None \<and>
   unknown_paper \<in> set [study_paper, unknown_paper] \<and>
   (\<exists>e. fst (export new_exporter ''lib'' [study_paper, unknown_paper] [] empty_world) = Inl e) \<and>
   fst (output_paper new_exporter [] unknown_paper 0 empty_world) = Inl (KeyError ''manuscript'')"
proof -
  have unknown: "map_of ZTYPE (p_type unknown_paper) = None"
    by (simp add: unknown_paper_def ZTYPE_def)
  have listed: "unknown_paper \<in> set [study_paper, unknown_paper]"
    by simp
  have files: "output_files new_exporter 0 (p_files unknown_paper) [] [] empty_world =
      (Inr [], [], empty_world)"
    by (simp add: unknown_paper_def)
  have type: "p_type unknown_paper = ''manuscript''"
    by (simp add: unknown_paper_def)
  from unknown_type_raises [OF unknown listed, where self = new_exporter and path = "''lib''"
      and collections = "[]" and w = empty_world and indent = 0 and f = "[]"]
  show ?thesis
    using unknown by (simp add: files type)
qed

subsection \<open>C6: when the embedding fails\<close>

text \<open>
  C6. Let \<^verbatim>\<open>embed_annotations\<close> be called for a file (annotation is on, the file exists
  and has annotations, the destination is absent or empty) and raise \<open>e\<close>, leaving the
  disk \<open>disk\<close>. Then the destination is no longer on disk. If \<open>e\<close> is a
  \<^verbatim>\<open>PdfReadError\<close> or an \<^verbatim>\<open>IOError\<close>, the error is logged, \<^const>\<open>output_file\<close>
  returns \<open>True\<close> with the text it writes when annotation is off, which refers to the
  original path, and the loop over the files goes on with the next one. For any other
  \<open>e\<close> the exception leaves \<^const>\<open>output_file\<close> and the loop.
\<close>

theorem embedding_failure_policy:
  assumes "annotate self" "f_exists file" "f_has_externalannotations file"
    and "fs w (destination self file) = None \<or> fs w (destination self file) = Some []"
    and "f_embed_annotations file (destination self file) (fs w) = (Some e, disk)"
    and "output_file self out file indent w = (r, out', w')"
  shows "fs w' = disk(destination self file := None) \<and>
     embedded w' = embedded w @ [destination self file] \<and>
     (if e = PdfReadError \<or> e = IOError
      then r = Inr True \<and>
           log w' = log w @ [LogDebug (destination self file) (f_path file), LogError e] \<and>
           out' = fst (snd (output_file (self\<lparr>annotate := False\<rparr>) out file indent w)) \<and>
           suffix (indentation (indent + 1) @ ''<rdf:resource rdf:resource='' @ DQ
                     @ xml_escape (f_path file) @ DQ @ ''/>'' @ NL
                     @ indentation indent @ ''</z:Attachment>'' @ NL) out' \<and>
           output_files self indent (file # rest) attachments out w =
             output_files self indent rest (attachments @ [f_uuid file]) out' w'
      else r = Inl e \<and>
           log w' = log w @ [LogDebug (destination self file) (f_path file)] \<and>
           output_files self indent (file # rest) attachments out w = (Inl e, out', w'))"
proof (cases "e = PdfReadError \<or> e = IOError")
  case True
  have res: "resolve_path self file w =
     (Inr (f_path file),
      \<lparr>fs = disk(destination self file := None),
       log = log w @ [LogDebug (destination self file) (f_path file), LogError e],
       embedded = embedded w @ [destination self file]\<rparr>)"
    using resolve_path_failure [OF assms(1,3,4,5)] True by simp
  have plain: "resolve_path (self\<lparr>annotate := False\<rparr>) file w = (Inr (f_path file), w)"
    by (simp add: resolve_path_plain)
  have r: "r = Inr True"
    and w': "w' = \<lparr>fs = disk(destination self file := None),
       log = log w @ [LogDebug (destination self file) (f_path file), LogError e],
       embedded = embedded w @ [destination self file]\<rparr>"
    and out': "out' = fst (snd (output_file (self\<lparr>annotate := False\<rparr>) out file indent w))"
    using assms(2) assms(6) [symmetric]
    by (simp_all add: output_file_def res plain Let_def)
  have "suffix (indentation (indent + 1) @ ''<rdf:resource rdf:resource='' @ DQ
                     @ xml_escape (f_path file) @ DQ @ ''/>'' @ NL
                     @ indentation indent @ ''</z:Attachment>'' @ NL) out'"
    unfolding out' using assms(2)
    by (simp add: output_file_def plain Let_def write_line_def py_str_def escape_def suffix_def)
  moreover have "output_files self indent (file # rest) attachments out w =
             output_files self indent rest (attachments @ [f_uuid file]) out' w'"
    using assms(6) r by simp
  ultimately show ?thesis
    using True r w' out' by simp
next
  case False
  have res: "resolve_path self file w =
     (Inl e,
      \<lparr>fs = disk(destination self file := None),
       log = log w @ [LogDebug (destination self file) (f_path file)],
       embedded = embedded w @ [destination self file]\<rparr>)"
    using resolve_path_failure [OF assms(1,3,4,5)] False by simp
  have r: "r = Inl e"
    and w': "w' = \<lparr>fs = disk(destination self file := None),
       log = log w @ [LogDebug (destination self file) (f_path file)],
       embedded = embedded w @ [destination self file]\<rparr>"
    using assms(2) assms(6) [symmetric]
    by (simp_all add: output_file_def res Let_def)
  have "output_files self indent (file # rest) attachments out w = (Inl e, out', w')"
    using assms(6) r by simp
  then show ?thesis
    using False r w' by simp
qed

text \<open>A file whose embedding writes half a copy and then fails on I/O.\<close>

theorem embedding_failure_policy_witness:
  "annotate annotating_exporter \<and> f_exists failing_file \<and>
   f_has_externalannotations failing_file \<and>
   destination annotating_exporter failing_file = ''out/f2-b.pdf'' \<and>
   fs empty_world ''out/f2-b.pdf'' = None \<and>
   f_embed_annotations failing_file ''out/f2-b.pdf'' (fs empty_world) =
     (Some IOError, (fs empty_world)(''out/f2-b.pdf'' \<mapsto> ''half'')) \<and>
   fst (output_file annotating_exporter [] failing_file 0 empty_world) = Inr True \<and>
   fs (snd (snd (output_file annotating_exporter [] failing_file 0 empty_world))) ''out/f2-b.pdf''
     = None \<and>
   log (snd (snd (output_file annotating_exporter [] failing_file 0 empty_world))) =
     [LogDebug ''out/f2-b.pdf'' ''/lib/b.pdf'', LogError IOError] \<and>
   fst (snd (output_file annotating_exporter [] failing_file 0 empty_world)) =
     fst (snd (output_file (annotating_exporter\<lparr>annotate := False\<rparr>) [] failing_file 0
       empty_world))"
proof -
  have dest: "destination annotating_exporter failing_file = ''out/f2-b.pdf''"
    by (simp add: destination_def annotating_exporter_def failing_file_def filechars_sub_def
          RE_FILECHARS_def op_join_def op_basename_def suffix_def)
  have h1: "annotate annotating_exporter"
    by (simp add: annotating_exporter_def)
  have h2: "f_exists failing_file" and h3: "f_has_externalannotations failing_file"
    by (simp_all add: failing_file_def)
  have h4: "fs empty_world (destination annotating_exporter failing_file) = None \<or>
      fs empty_world (destination annotating_exporter failing_file) = Some []"
    by (simp add: empty_world_def)
  have h5: "f_embed_annotations failing_file (destination annotating_exporter failing_file)
      (fs empty_world) = (Some IOError, (fs empty_world)(''out/f2-b.pdf'' \<mapsto> ''half''))"
    unfolding dest by (simp add: failing_file_def)
  have h6: "output_file annotating_exporter [] failing_file 0 empty_world =
      (fst (output_file annotating_exporter [] failing_file 0 empty_world),
       fst (snd (output_file annotating_exporter [] failing_file 0 empty_world)),
       snd (snd (output_file annotating_exporter [] failing_file 0 empty_world)))"
    by simp
  note policy = embedding_failure_policy [OF h1 h2 h3 h4 h5 h6, unfolded dest]
  have "fs empty_world ''out/f2-b.pdf'' = None"
    by (simp add: empty_world_def)
  moreover have "log empty_world = []"
    by (simp add: empty_world_def)
  moreover have "f_path failing_file = ''/lib/b.pdf''"
    by (simp add: failing_file_def)
  ultimately show ?thesis
    using h1 h2 h3 h5 [unfolded dest] dest policy by simp
qed

subsection \<open>C7: a file that is not there\<close>

text \<open>
  C7. For a file whose \<^verbatim>\<open>exists()\<close> is false, \<^const>\<open>output_file\<close> returns \<open>False\<close>
  and leaves the buffer and the world as they were; the loop over the files, with its
  list of links, and \<^const>\<open>output_paper\<close> give what they give without the file.
\<close>

theorem missing_file_omitted:
  assumes "\<not> f_exists file"
  shows "output_file self out file indent w = (Inr False, out, w) \<and>
    output_files self indent (pre @ file # post) attachments out w =
      output_files self indent (pre @ post) attachments out w \<and>
    output_paper self f
        (Paper uuid type title abstract volume number doi pages kws rd container date
           creationdate authors nts (pre @ file # post)) indent w =
      output_paper self f
        (Paper uuid type title abstract volume number doi pages kws rd container date
           creationdate authors nts (pre @ post)) indent w"
proof (intro conjI)
  show "output_file self out file indent w = (Inr False, out, w)"
    using assms by (rule output_file_missing)
  show "output_files self indent (pre @ file # post) attachments out w =
      output_files self indent (pre @ post) attachments out w"
    using assms by (rule output_files_missing)
  show "output_paper self f
        (Paper uuid type title abstract volume number doi pages kws rd container date
           creationdate authors nts (pre @ file # post)) indent w =
      output_paper self f
        (Paper uuid type title abstract volume number doi pages kws rd container date
           creationdate authors nts (pre @ post)) indent w"
    unfolding output_paper.simps [of self f "Paper uuid type title abstract volume number doi pages kws rd container date
           creationdate authors nts (pre @ file # post)"]
      output_paper.simps [of self f "Paper uuid type title abstract volume number doi pages kws rd container date
           creationdate authors nts (pre @ post)"]
    by (simp add: output_files_missing [OF assms] output_paper_fields_def output_paper_trailer_def Let_def
        cong: prod.case_cong sum.case_cong option.case_cong if_cong)
qed

text \<open>A paper whose only file is missing is written like the paper with no file.\<close>

theorem missing_file_omitted_witness:
  "\<not> f_exists missing_file \<and>
   output_file new_exporter [] missing_file 0 empty_world = (Inr False, [], empty_world) \<and>
   output_paper new_exporter []
       (Paper ''p6'' ''book'' (Some ''T'') None None None None None [] False None [] None [] []
          [missing_file]) 0 empty_world =
     output_paper new_exporter []
       (Paper ''p6'' ''book'' (Some ''T'') None None None None None [] False None [] None [] []
          []) 0 empty_world"
proof -
  have missing: "\<not> f_exists missing_file"
    by (simp add: missing_file_def)
  from missing_file_omitted [OF missing, where pre = "[]" and post = "[]"
      and self = new_exporter and out = "[]" and indent = 0 and w = empty_world and f = "[]"
      and uuid = "''p6''" and type = "''book''" and title = "Some ''T''" and abstract = None
      and volume = None and number = None and doi = None and pages = None and kws = "[]"
      and rd = False and container = None and date = "[]" and creationdate = None
      and authors = "[]" and nts = "[]"]
  show ?thesis
    using missing by simp
qed

subsection \<open>C8: escaping round-trips\<close>

text \<open>
  C8. For every string, also one that holds \<open><\<close>, \<open>>\<close>, \<open>&\<close> and the two quotes,
  XML-unescaping the result of \<^const>\<open>escape\<close> gives the string back.
\<close>

theorem escape_roundtrip:
  "map_option xml_unescape (escape (Some s)) = Some s"
  by (simp add: escape_def xml_unescape_def xml_escape_chars
      unescape_lt unescape_gt unescape_amp)

subsection \<open>C9: attachments before the fragment\<close>

text \<open>
  C9, as the code has it. In every call of \<^const>\<open>output_paper\<close>, for a paper of the list
  or for an embedded container, the files of the paper are resolved, into the side buffer,
  before anything of the paper's own fragment is written: when one of them raises \<open>e\<close>,
  the call raises \<open>e\<close> with the stream it was given. For a paper of the list, reached
  after the papers \<open>before\<close>, \<^const>\<open>export\<close> then ends with \<open>e\<close> and the header followed
  by the papers \<open>before\<close>. For the embedded container of a paper \<open>outer\<close>, the call for
  \<open>outer\<close> ends with \<open>e\<close> and the fragment of \<open>outer\<close> half-written: its head and fields
  and the opening \<open>dcterms:isPartOf\<close>, with nothing of the container and no closing tag.
\<close>

theorem attachments_resolved_first:
  assumes "output_files self indent (p_files paper) [] [] w1 = (Inl e, buf, w2)"
  shows "output_paper self f paper indent w1 = (Inl e, f, w2) \<and>
     (self = self0\<lparr>ex_path := path\<rparr> \<and> indent = 1 \<and>
      output_papers self rdf_header before w = (Inr (), f, w1) \<longrightarrow>
        export self0 path (before @ paper # rest) collections w = (Inl e, f, w2)) \<and>
     (p_container outer = Some paper \<and> embed_container self \<and> indent = k + 2 \<and>
      output_files self k (p_files outer) [] [] w0 = (Inr attachments, obuf, w1) \<and>
      map_of ZTYPE (p_type outer) = Some ztype \<longrightarrow>
        output_paper self g outer k w0 =
          (Inl e,
           write_line (output_paper_fields (paper_head g outer k ztype) k outer attachments)
             (k + 1) (''<dcterms:isPartOf>'' @ NL) True,
           w2))"
proof (intro conjI impI)
  show own: "output_paper self f paper indent w1 = (Inl e, f, w2)" for f
    using assms by (rule output_paper_files_raise)
  show "export self0 path (before @ paper # rest) collections w = (Inl e, f, w2)"
    if top: "self = self0\<lparr>ex_path := path\<rparr> \<and> indent = 1 \<and>
      output_papers self rdf_header before w = (Inr (), f, w1)"
  proof -
    from top have s: "self = self0\<lparr>ex_path := path\<rparr>" and i: "indent = 1"
      and b: "output_papers self rdf_header before w = (Inr (), f, w1)"
      by blast+
    have "output_papers self rdf_header (before @ paper # rest) w =
        output_papers self f (paper # rest) w1"
      using b by (rule output_papers_append)
    also have "\<dots> = (Inl e, f, w2)"
      using own [of f] i by simp
    finally have "output_papers (self0\<lparr>ex_path := path\<rparr>) rdf_header (before @ paper # rest) w =
        (Inl e, f, w2)"
      unfolding s .
    then show ?thesis
      by (rule export_raise)
  qed
  show "output_paper self g outer k w0 =
      (Inl e,
       write_line (output_paper_fields (paper_head g outer k ztype) k outer attachments)
         (k + 1) (''<dcterms:isPartOf>'' @ NL) True,
       w2)"
    if nested: "p_container outer = Some paper \<and> embed_container self \<and> indent = k + 2 \<and>
      output_files self k (p_files outer) [] [] w0 = (Inr attachments, obuf, w1) \<and>
      map_of ZTYPE (p_type outer) = Some ztype"
  proof -
    from nested have files: "output_files self k (p_files outer) [] [] w0 = (Inr attachments, obuf, w1)"
      and known: "map_of ZTYPE (p_type outer) = Some ztype"
      by blast+
    have "output_container self
        (output_paper_fields (paper_head g outer k ztype) k outer attachments) outer k w1 =
        (Inl e,
         write_line (output_paper_fields (paper_head g outer k ztype) k outer attachments)
           (k + 1) (''<dcterms:isPartOf>'' @ NL) True,
         w2)"
      using nested own by (simp add: output_container_def)
    then show ?thesis
      by (simp add: output_paper_unfold [OF files known])
  qed
qed

text \<open>
  Three papers, a file of the second raising an exception that is not recovered; and a
  chapter whose container is that second paper.
\<close>

theorem attachments_resolved_first_witness:
  "fst (output_papers (annotating_exporter\<lparr>ex_path := ''lib''\<rparr>) rdf_header [study_paper]
          empty_world) = Inr () \<and>
   fst (output_files (annotating_exporter\<lparr>ex_path := ''lib''\<rparr>) 1 (p_files crash_paper) [] []
          empty_world) = Inl (OtherError ''boom'') \<and>
   fst (export annotating_exporter ''lib'' [study_paper, crash_paper, volume_paper] [] empty_world)
     = Inl (OtherError ''boom'') \<and>
   fst (snd (export annotating_exporter ''lib'' [study_paper, crash_paper, volume_paper] []
          empty_world)) =
     fst (snd (output_papers (annotating_exporter\<lparr>ex_path := ''lib''\<rparr>) rdf_header [study_paper]
          empty_world)) \<and>
   p_container nested_paper = Some crash_paper \<and>
   fst (output_files (annotating_exporter\<lparr>ex_path := ''lib''\<rparr>) 3 (p_files crash_paper) [] []
          empty_world) = Inl (OtherError ''boom'') \<and>
   output_paper (annotating_exporter\<lparr>ex_path := ''lib''\<rparr>) rdf_header nested_paper 1 empty_world =
     (Inl (OtherError ''boom''),
      write_line
        (output_paper_fields (paper_head rdf_header nested_paper 1 ''bookSection'') 1
           nested_paper [])
        2 (''<dcterms:isPartOf>'' @ NL) True,
      crash_world)"
proof -
  define self where "self = annotating_exporter\<lparr>ex_path := ''lib''\<rparr>"
  have "\<exists>out1. output_paper self rdf_header study_paper 1 empty_world = (Inr (), out1, empty_world)"
    by (subst output_paper.simps) (simp add: study_paper_def BIBTYPE_def ZTYPE_def Let_def)
  then obtain out1 where
    before: "output_papers self rdf_header [study_paper] empty_world = (Inr (), out1, empty_world)"
    by auto
  obtain buf where
    crash: "output_files self 1 (p_files crash_paper) [] [] empty_world =
      (Inl (OtherError ''boom''), buf, crash_world)"
    using crash_paper_files [of 1] unfolding self_def by blast
  obtain buf3 where
    crash3: "output_files self 3 (p_files crash_paper) [] [] empty_world =
      (Inl (OtherError ''boom''), buf3, crash_world)"
    using crash_paper_files [of 3] unfolding self_def by blast
  have container: "p_container nested_paper = Some crash_paper"
    and outer_files: "output_files self 1 (p_files nested_paper) [] [] empty_world =
      (Inr [], [], empty_world)"
    and known: "map_of ZTYPE (p_type nested_paper) = Some ''bookSection''"
    by (simp_all add: nested_paper_def ZTYPE_def)
  have embeds: "embed_container self"
    unfolding self_def by (rule annotating_embeds)
  have "export annotating_exporter ''lib'' ([study_paper] @ crash_paper # [volume_paper]) []
      empty_world = (Inl (OtherError ''boom''), out1, crash_world)"
    using attachments_resolved_first [OF crash, where f = out1 and ?self0.0 = annotating_exporter
        and path = "''lib''" and before = "[study_paper]" and w = empty_world
        and rest = "[volume_paper]" and collections = "[]"]
      before self_def
    by blast
  then have top: "export annotating_exporter ''lib'' [study_paper, crash_paper, volume_paper] []
      empty_world = (Inl (OtherError ''boom''), out1, crash_world)"
    by simp
  have three: "(3::nat) = 1 + 2"
    by simp
  have nested: "output_paper self rdf_header nested_paper 1 empty_world =
     (Inl (OtherError ''boom''),
      write_line
        (output_paper_fields (paper_head rdf_header nested_paper 1 ''bookSection'') 1
           nested_paper [])
        (1 + 1) (''<dcterms:isPartOf>'' @ NL) True,
      crash_world)"
    using attachments_resolved_first [OF crash3, where outer = nested_paper and k = 1
        and ?w0.0 = empty_world and attachments = "[]" and obuf = "[]"
        and ztype = "''bookSection''" and g = rdf_header]
      container embeds three outer_files known
    by blast
  have two: "(1::nat) + 1 = 2"
    by simp
  show ?thesis
    using nested [unfolded self_def two] container
    by (simp only: before [unfolded self_def] crash [unfolded self_def]
          crash3 [unfolded self_def] top fst_conv snd_conv simp_thms)
qed

text \<open>
  C9 as stated fails for an embedded container: the chapter has no file of its own, the
  file of its container raises while the chapter is being written, and \<^const>\<open>export\<close>
  ends with the chapter's fragment begun in the document.
\<close>

theorem container_failure_counterexample:
  "p_container nested_paper = Some crash_paper \<and>
   p_files nested_paper = [] \<and>
   embed_container annotating_exporter \<and>
   output_paper (annotating_exporter\<lparr>ex_path := ''lib''\<rparr>)
       (rdf_header @ nested_text) crash_paper 3 empty_world =
     (Inl (OtherError ''boom''), rdf_header @ nested_text, crash_world) \<and>
   export annotating_exporter ''lib'' [nested_paper] [] empty_world =
     (Inl (OtherError ''boom''), rdf_header @ nested_text, crash_world) \<and>
   nested_text =
     ''  <bib:Article rdf:about='' @ DQ @ ''#p7'' @ DQ @ ''>'' @ NL
     @ ''    <z:itemType>bookSection</z:itemType>'' @ NL
     @ ''    <dc:title>Part</dc:title>'' @ NL
     @ ''    <dcterms:isPartOf>'' @ NL"
proof (intro conjI)
  show "p_container nested_paper = Some crash_paper" and "p_files nested_paper = []"
    by (simp_all add: nested_paper_def)
  show "embed_container annotating_exporter"
    by (simp add: annotating_exporter_def)
  show "output_paper (annotating_exporter\<lparr>ex_path := ''lib''\<rparr>)
       (rdf_header @ nested_text) crash_paper 3 empty_world =
     (Inl (OtherError ''boom''), rdf_header @ nested_text, crash_world)"
    by (rule crash_paper_output)
  show "export annotating_exporter ''lib'' [nested_paper] [] empty_world =
     (Inl (OtherError ''boom''), rdf_header @ nested_text, crash_world)"
    by (simp add: export_def Let_def nested_paper_output)
  show "nested_text =
     ''  <bib:Article rdf:about='' @ DQ @ ''#p7'' @ DQ @ ''>'' @ NL
     @ ''    <z:itemType>bookSection</z:itemType>'' @ NL
     @ ''    <dc:title>Part</dc:title>'' @ NL
     @ ''    <dcterms:isPartOf>'' @ NL"
    by (simp add: nested_text_def)
qed

subsection \<open>C10: the number goes with the volume\<close>

text \<open>
  C10. For a paper that reaches line 124 (its files do not raise and its type is mapped)
  and has a volume, the stream holds a \<open>prism:number\<close> element whose text is the
  formatted, escaped number, whatever the number is; when the number is \<open>None\<close> the
  text is \<open>None\<close>.
\<close>

theorem number_follows_volume:
  assumes "output_files self indent (p_files paper) [] [] w = (Inr attachments, buf, w1)"
    and "map_of ZTYPE (p_type paper) = Some ztype"
    and "p_volume paper \<noteq> None"
  shows "sublist (''<prism:number>'' @ py_str (escape (p_number paper)) @ ''</prism:number>'' @ NL)
       (fst (snd (output_paper self f paper indent w))) \<and>
     (p_number paper = None \<longrightarrow>
        sublist (''<prism:number>None</prism:number>'' @ NL)
          (fst (snd (output_paper self f paper indent w))))"
proof -
  have "sublist (''<prism:number>'' @ py_str (escape (p_number paper)) @ ''</prism:number>'' @ NL)
       (fst (snd (output_paper self f paper indent w)))"
    using fields_emit_number [OF assms(3)] output_paper_emits_head [OF assms(1,2)]
    by (rule sublist_prefix_trans)
  then show ?thesis
    by (auto simp: escape_def py_str_def)
qed

text \<open>A paper with volume 12 and no number.\<close>

theorem number_follows_volume_witness:
  "output_files new_exporter 0 (p_files volume_paper) [] [] empty_world = (Inr [], [], empty_world) \<and>
   map_of ZTYPE (p_type volume_paper) = Some ''journalArticle'' \<and>
   p_volume volume_paper = Some ''12'' \<and>
   p_number volume_paper = None \<and>
   sublist (''<prism:number>None</prism:number>'' @ NL)
     (fst (snd (output_paper new_exporter [] volume_paper 0 empty_world)))"
proof -
  have files: "output_files new_exporter 0 (p_files volume_paper) [] [] empty_world =
      (Inr [], [], empty_world)"
    by (simp add: volume_paper_def)
  have known: "map_of ZTYPE (p_type volume_paper) = Some ''journalArticle''"
    by (simp add: volume_paper_def ZTYPE_def)
  have volume: "p_volume volume_paper \<noteq> None" and number: "p_number volume_paper = None"
    by (simp_all add: volume_paper_def)
  from number_follows_volume [OF files known volume, where f = "[]"] show ?thesis
    using files known number by (simp add: volume_paper_def)
qed

end
